theory Spec2Isabelle
  imports Main "HOL-Library.Word"
begin

unbundle bit_operations_syntax

section \<open>The infrared link protocol of the Pong game (communication.c)\<close>

text \<open>
  The protocol core of the game is the C module \<^verbatim>\<open>communication.c\<close>. Its file-level
  and function-level static variables are collected in the record \<open>session\<close>, every
  function takes the session and returns the new one, and the calls into the board's
  drivers (\<^verbatim>\<open>ir_uart_write_ready_p\<close>, \<^verbatim>\<open>ir_uart_read_ready_p\<close>/\<^verbatim>\<open>ir_uart_getc\<close>,
  \<^verbatim>\<open>navswitch_push_event_p\<close>) are the fields of the record \<open>link_input\<close>, one value
  per tick. The bytes handed to \<^verbatim>\<open>ir_uart_putc\<close> during a tick are collected in a list.

  A \<^verbatim>\<open>uint8_t\<close> is an \<open>8 word\<close>. C evaluates \<^verbatim>\<open>+\<close> and \<^verbatim>\<open>%\<close> on \<^verbatim>\<open>uint8_t\<close> operands
  in \<^verbatim>\<open>int\<close> and truncates on assignment: such expressions are written on \<open>nat\<close>
  (\<open>unat\<close> of the operands) and converted back by \<open>of_nat\<close>, which truncates.
  The increment \<^verbatim>\<open>x++\<close> of a \<^verbatim>\<open>uint8_t\<close> is \<open>x + 1\<close> on the word.
\<close>

type_synonym uint8_t = "8 word"

subsection \<open>Wire codes and masks\<close>

definition BLANK_BYTE :: uint8_t where "BLANK_BYTE = 0xFF"
definition START_CODE :: uint8_t where "START_CODE = 0xFE"
definition START_ACK :: uint8_t where "START_ACK = 0xFD"
definition END_CODE :: uint8_t where "END_CODE = 0xFC"
definition END_ACK :: uint8_t where "END_ACK = 0xFB"
definition GAME_OVER_CODE :: uint8_t where "GAME_OVER_CODE = 0xFA"
definition PREFIX_MASK :: uint8_t where "PREFIX_MASK = 0xF0"
definition SUFFIX_MASK :: uint8_t where "SUFFIX_MASK = 0x0F"
definition THREE_MASK :: uint8_t where "THREE_MASK = 0x07"
definition ONE_MASK :: uint8_t where "ONE_MASK = 0x08"
definition PHYSICS_ACK :: uint8_t where "PHYSICS_ACK = 0xD0"
definition SEQ_NUMBER_LIMIT :: nat where "SEQ_NUMBER_LIMIT = 8"

subsection \<open>Data model\<close>

datatype CommunicationState_t =
  START_REC | START_SEND | RECIEVING | WAITING | SENDING | END_ROUND | GAME_OVER

record CommunicationPacket_t =
  startGame :: bool
  haveBall :: bool
  endRound :: bool
  gameOver :: bool
  physicsInfo :: bool
  posR :: uint8_t
  dirR :: bool
  magC :: uint8_t

text \<open>
  The static variables: \<^verbatim>\<open>physicsSeqNumber\<close>, \<^verbatim>\<open>physicsPacket\<close> and \<^verbatim>\<open>currentState\<close> of
  the file, \<^verbatim>\<open>readData\<close> and \<^verbatim>\<open>tickCount\<close> of \<^verbatim>\<open>communication_update\<close>.
\<close>

record session =
  physicsSeqNumber :: uint8_t
  physicsPacket :: CommunicationPacket_t
  currentState :: CommunicationState_t
  readData :: uint8_t
  tickCount :: uint8_t

text \<open>What the drivers answer during one tick.\<close>

record link_input =
  write_ready :: bool
  rx :: "uint8_t option"
  nav_push :: bool

text \<open>
  What one call of \<^verbatim>\<open>communication_update\<close> produces: the session afterwards, the
  returned packet, the bytes given to \<^verbatim>\<open>ir_uart_putc\<close> in order, and the last value
  given to \<^verbatim>\<open>led_set(LED1, _)\<close>.
\<close>

record outcome =
  after :: session
  packet :: CommunicationPacket_t
  sent :: "uint8_t list"
  led1 :: bool

subsection \<open>Packet constructors\<close>

definition null_packet :: CommunicationPacket_t where
  "null_packet =
     \<lparr>startGame = False, haveBall = False, endRound = False, gameOver = False,
      physicsInfo = False, posR = 0, dirR = False, magC = 0\<rparr>"

definition game_start_packet :: "bool \<Rightarrow> CommunicationPacket_t" where
  "game_start_packet hb = null_packet\<lparr>startGame := True, haveBall := hb\<rparr>"

definition end_round_packet :: CommunicationPacket_t where
  "end_round_packet = null_packet\<lparr>endRound := True\<rparr>"

definition communication_physics_packet :: "uint8_t \<Rightarrow> bool \<Rightarrow> uint8_t \<Rightarrow> CommunicationPacket_t" where
  "communication_physics_packet pR dR mC =
     null_packet\<lparr>physicsInfo := True, posR := pR AND THREE_MASK,
                 magC := mC AND THREE_MASK, dirR := dR\<rparr>"

definition end_game_packet :: CommunicationPacket_t where
  "end_game_packet = null_packet\<lparr>gameOver := True\<rparr>"

subsection \<open>The operations of the module\<close>

text \<open>
  The session before \<^verbatim>\<open>main\<close> runs, from the static initialisers: the sequence number
  and the tick count are 0, the byte slot is \<^verbatim>\<open>BLANK_BYTE\<close>, and the variables without
  an initialiser (\<^verbatim>\<open>physicsPacket\<close>, \<^verbatim>\<open>currentState\<close>) are zero, which is the packet with
  no flag and the first enumerator.
\<close>

definition power_on :: session where
  "power_on =
     \<lparr>physicsSeqNumber = 0, physicsPacket = null_packet, currentState = START_REC,
      readData = BLANK_BYTE, tickCount = 0\<rparr>"

definition communication_init :: "session \<Rightarrow> session" where
  "communication_init s =
     s\<lparr>currentState := START_REC, physicsPacket := null_packet\<lparr>physicsInfo := True\<rparr>\<rparr>"

definition communication_send_end_round :: "session \<Rightarrow> session" where
  "communication_send_end_round s = s\<lparr>currentState := END_ROUND\<rparr>"

definition communication_send_end_game :: "session \<Rightarrow> session" where
  "communication_send_end_game s = s\<lparr>currentState := GAME_OVER\<rparr>"

definition communication_send_physics_info :: "uint8_t \<Rightarrow> bool \<Rightarrow> uint8_t \<Rightarrow> session \<Rightarrow> session" where
  "communication_send_physics_info pR dR mC s =
     (if currentState s \<noteq> WAITING then s
      else
        let s1 = s\<lparr>currentState := SENDING\<rparr>;
            s2 = (if unat (physicsSeqNumber s1) mod 2 = 1
                  then s1\<lparr>physicsSeqNumber := physicsSeqNumber s1 + 1\<rparr> else s1)
        in s2\<lparr>physicsPacket := communication_physics_packet pR dR mC\<rparr>)"

subsection \<open>The tick: \<^verbatim>\<open>communication_update\<close>\<close>

text \<open>
  The cadence gate (lines 167 to 177): the new \<^verbatim>\<open>tickCount\<close> and \<^verbatim>\<open>sendFrame\<close>.
  \<^verbatim>\<open>ir_uart_write_ready_p\<close> is asked only when the count has come back to 0.
\<close>

definition cadence_gate :: "bool \<Rightarrow> uint8_t \<Rightarrow> uint8_t \<times> bool" where
  "cadence_gate wr tc =
     (let tc1 = (of_nat ((unat tc + 1) mod 2) :: uint8_t)
      in if tc1 = 0 then (if wr then (tc1, True) else (tc1 + 1, False))
         else (tc1, False))"

text \<open>The decoding of a received byte (lines 263, 265 and 293).\<close>

definition decode_seq :: "uint8_t \<Rightarrow> uint8_t" where
  "decode_seq b = drop_bit 4 (b AND PREFIX_MASK)"

definition decode_data :: "uint8_t \<Rightarrow> uint8_t" where
  "decode_data b = b AND SUFFIX_MASK"

text \<open>
  The sequence number before the current one (lines 264 and 292):
  \<^verbatim>\<open>(physicsSeqNumber + SEQ_NUMBER_LIMIT - 1) % SEQ_NUMBER_LIMIT\<close>, evaluated in \<^verbatim>\<open>int\<close>.
\<close>

definition last_seq :: "uint8_t \<Rightarrow> uint8_t" where
  "last_seq n = of_nat ((unat n + SEQ_NUMBER_LIMIT - 1) mod SEQ_NUMBER_LIMIT)"

text \<open>The two data bytes written in the state \<^verbatim>\<open>SENDING\<close> (lines 319 to 324).\<close>

definition encode_position_half :: "uint8_t \<Rightarrow> CommunicationPacket_t \<Rightarrow> uint8_t" where
  "encode_position_half n p = push_bit 4 n OR posR p"

definition encode_velocity_half :: "uint8_t \<Rightarrow> CommunicationPacket_t \<Rightarrow> uint8_t" where
  "encode_velocity_half n p =
     push_bit 4 n OR (THREE_MASK AND magC p) OR (if dirR p then ONE_MASK else 0x00)"

text \<open>
  The end of a path through the \<^verbatim>\<open>switch\<close>: the session as the path leaves it, the
  packet it returns, the bytes it has written and the state it has left the LED in.
\<close>

definition finish :: "session \<Rightarrow> CommunicationPacket_t \<Rightarrow> uint8_t list \<Rightarrow> bool \<Rightarrow> outcome" where
  "finish s p bs l = \<lparr>after = s, packet = p, sent = bs, led1 = l\<rparr>"

definition update_START_REC :: "bool \<Rightarrow> bool \<Rightarrow> session \<Rightarrow> outcome" where
  "update_START_REC sendFrame push s =
     (if readData s = START_CODE then
        finish (s\<lparr>currentState := RECIEVING\<rparr>) (game_start_packet False) [] True
      else if readData s = END_CODE \<and> sendFrame then
        finish (s\<lparr>readData := BLANK_BYTE\<rparr>) null_packet [END_ACK] True
      else if push then
        finish (s\<lparr>currentState := START_SEND\<rparr>) null_packet [] True
      else finish s null_packet [] True)"

definition update_START_SEND :: "bool \<Rightarrow> session \<Rightarrow> outcome" where
  "update_START_SEND sendFrame s =
     (if readData s = START_ACK then
        finish (s\<lparr>readData := BLANK_BYTE, currentState := WAITING\<rparr>)
          (game_start_packet True) [] True
      else if readData s = END_CODE \<and> sendFrame then
        finish (s\<lparr>readData := BLANK_BYTE\<rparr>) null_packet [END_ACK] True
      else if readData s = START_CODE then
        finish (s\<lparr>readData := BLANK_BYTE, currentState := START_REC\<rparr>) null_packet [] True
      else if sendFrame then finish s null_packet [START_CODE] True
      else finish s null_packet [] True)"

definition update_RECIEVING :: "bool \<Rightarrow> session \<Rightarrow> outcome" where
  "update_RECIEVING sendFrame s =
     (if readData s = START_CODE \<and> sendFrame then
        finish (s\<lparr>readData := BLANK_BYTE\<rparr>) null_packet [START_ACK] False
      else if readData s = GAME_OVER_CODE then
        finish (s\<lparr>readData := BLANK_BYTE, currentState := GAME_OVER\<rparr>) end_game_packet [] False
      else if readData s = END_CODE then
        finish (s\<lparr>readData := BLANK_BYTE, currentState := START_REC\<rparr>) end_round_packet [] False
      else
        let seqNumber = decode_seq (readData s);
            lastPhyisicsSeq = last_seq (physicsSeqNumber s);
            data = decode_data (readData s)
        in if seqNumber = physicsSeqNumber s then
             let bs = (if sendFrame then [PHYSICS_ACK OR physicsSeqNumber s] else []);
                 s1 = (if sendFrame then s\<lparr>readData := BLANK_BYTE\<rparr> else s)
             in if unat (physicsSeqNumber s1) mod 2 = 0 then
                  finish (s1\<lparr>physicsPacket := (physicsPacket s1)\<lparr>posR := data\<rparr>,
                              physicsSeqNumber := physicsSeqNumber s1 + 1\<rparr>)
                    null_packet bs False
                else
                  let pkt = (physicsPacket s1)\<lparr>dirR := (data AND ONE_MASK) > 0,
                                              magC := data AND THREE_MASK\<rparr>
                  in finish (s1\<lparr>physicsPacket := pkt,
                                 physicsSeqNumber := physicsSeqNumber s1 + 1,
                                 currentState := WAITING\<rparr>)
                       pkt bs False
           else if seqNumber = lastPhyisicsSeq \<and> sendFrame then
             finish (s\<lparr>readData := BLANK_BYTE\<rparr>) null_packet
               [PHYSICS_ACK OR lastPhyisicsSeq] False
           else finish s null_packet [] False)"

definition update_WAITING :: "bool \<Rightarrow> session \<Rightarrow> outcome" where
  "update_WAITING sendFrame s =
     (let lastPhysicsSeqNumber = last_seq (physicsSeqNumber s);
          recievedSeqNumber = decode_seq (readData s)
      in if recievedSeqNumber = lastPhysicsSeqNumber \<and> sendFrame then
           finish (s\<lparr>readData := BLANK_BYTE\<rparr>) null_packet
             [PHYSICS_ACK OR lastPhysicsSeqNumber] False
         else finish s null_packet [] False)"

text \<open>The \<^verbatim>\<open>if(sendFrame)\<close> block that ends the case \<^verbatim>\<open>SENDING\<close> (lines 318 to 325).\<close>

definition transmit_half :: "bool \<Rightarrow> session \<Rightarrow> outcome" where
  "transmit_half sendFrame s =
     (if sendFrame then
        finish s null_packet
          [if unat (physicsSeqNumber s) mod 2 = 0
           then encode_position_half (physicsSeqNumber s) (physicsPacket s)
           else encode_velocity_half (physicsSeqNumber s) (physicsPacket s)]
          False
      else finish s null_packet [] False)"

definition update_SENDING :: "bool \<Rightarrow> session \<Rightarrow> outcome" where
  "update_SENDING sendFrame s =
     (if readData s AND PREFIX_MASK = PHYSICS_ACK
         \<and> readData s AND SUFFIX_MASK = physicsSeqNumber s then
        if unat (physicsSeqNumber s) mod 2 = 0 then
          transmit_half sendFrame
            (s\<lparr>readData := BLANK_BYTE, physicsSeqNumber := physicsSeqNumber s + 1\<rparr>)
        else
          finish (s\<lparr>readData := BLANK_BYTE,
                     physicsSeqNumber := physicsSeqNumber s + 1,
                     currentState := RECIEVING\<rparr>)
            null_packet [] False
      else transmit_half sendFrame s)"

definition update_END_ROUND :: "bool \<Rightarrow> session \<Rightarrow> outcome" where
  "update_END_ROUND sendFrame s =
     (if readData s = END_ACK then
        finish (s\<lparr>currentState := START_REC, readData := BLANK_BYTE\<rparr>) null_packet [] False
      else if sendFrame then finish s null_packet [END_CODE] False
      else finish s null_packet [] False)"

definition update_GAME_OVER :: "bool \<Rightarrow> session \<Rightarrow> outcome" where
  "update_GAME_OVER sendFrame s =
     (if sendFrame then finish s null_packet [GAME_OVER_CODE] False
      else finish s null_packet [] False)"

text \<open>
  The prologue of the tick (lines 160 to 182): the sequence number is reduced modulo
  \<^verbatim>\<open>SEQ_NUMBER_LIMIT\<close>, the cadence gate runs, and a byte that is ready is read into
  \<^verbatim>\<open>readData\<close>. The result is the session the \<^verbatim>\<open>switch\<close> sees and \<^verbatim>\<open>sendFrame\<close>.
\<close>

definition prologue :: "link_input \<Rightarrow> session \<Rightarrow> session \<times> bool" where
  "prologue env s =
     (let s1 = s\<lparr>physicsSeqNumber :=
                   of_nat (unat (physicsSeqNumber s) mod SEQ_NUMBER_LIMIT)\<rparr>;
          g = cadence_gate (write_ready env) (tickCount s1);
          s2 = s1\<lparr>tickCount := fst g\<rparr>;
          s3 = (case rx env of Some b \<Rightarrow> s2\<lparr>readData := b\<rparr> | None \<Rightarrow> s2)
      in (s3, snd g))"

definition dispatch :: "bool \<Rightarrow> bool \<Rightarrow> session \<Rightarrow> outcome" where
  "dispatch sendFrame push s =
     (case currentState s of
        START_REC \<Rightarrow> update_START_REC sendFrame push s
      | START_SEND \<Rightarrow> update_START_SEND sendFrame s
      | RECIEVING \<Rightarrow> update_RECIEVING sendFrame s
      | WAITING \<Rightarrow> update_WAITING sendFrame s
      | SENDING \<Rightarrow> update_SENDING sendFrame s
      | END_ROUND \<Rightarrow> update_END_ROUND sendFrame s
      | GAME_OVER \<Rightarrow> update_GAME_OVER sendFrame s)"

definition communication_update :: "link_input \<Rightarrow> session \<Rightarrow> outcome" where
  "communication_update env s =
     (let r = prologue env s in dispatch (snd r) (nav_push env) (fst r))"

text \<open>Whether the tick is a send frame.\<close>

definition sendFrame_of :: "link_input \<Rightarrow> session \<Rightarrow> bool" where
  "sendFrame_of env s = snd (prologue env s)"

subsection \<open>Sessions the game can reach\<close>

text \<open>
  The game loop (game.c) calls \<^verbatim>\<open>communication_init\<close> once and then the other four
  functions in some order. A reachable session is the result of running a list of
  such calls from the session \<^verbatim>\<open>communication_init\<close> leaves at power on.
\<close>

datatype event =
  Init
  | SendEndRound
  | SendEndGame
  | SendPhysicsInfo uint8_t bool uint8_t
  | Tick link_input

fun apply_event :: "session \<Rightarrow> event \<Rightarrow> session" where
  "apply_event s Init = communication_init s"
| "apply_event s SendEndRound = communication_send_end_round s"
| "apply_event s SendEndGame = communication_send_end_game s"
| "apply_event s (SendPhysicsInfo pR dR mC) = communication_send_physics_info pR dR mC s"
| "apply_event s (Tick env) = after (communication_update env s)"

definition boot :: session where
  "boot = communication_init power_on"

definition run :: "event list \<Rightarrow> session" where
  "run evs = foldl apply_event boot evs"

text \<open>The number of event flags a packet has set.\<close>

definition flag_count :: "CommunicationPacket_t \<Rightarrow> nat" where
  "flag_count p =
     of_bool (startGame p) + of_bool (endRound p) + of_bool (gameOver p)
     + of_bool (physicsInfo p)"

text \<open>
  The byte in the slot \<^verbatim>\<open>readData\<close> when the \<^verbatim>\<open>switch\<close> runs: the byte that arrived
  on this tick, or else the one that was there before.
\<close>

definition slot :: "link_input \<Rightarrow> session \<Rightarrow> uint8_t" where
  "slot env s = (case rx env of Some b \<Rightarrow> b | None \<Rightarrow> readData s)"

text \<open>Inputs of a tick, for the scenarios: a byte arrives, nothing arrives, the switch is pushed.\<close>

definition heard :: "uint8_t \<Rightarrow> link_input" where
  "heard b = \<lparr>write_ready = True, rx = Some b, nav_push = False\<rparr>"

definition silence :: link_input where
  "silence = \<lparr>write_ready = True, rx = None, nav_push = False\<rparr>"

definition pushed :: link_input where
  "pushed = \<lparr>write_ready = True, rx = None, nav_push = True\<rparr>"

text \<open>
  A run of ticks on which no byte arrives and none is a send frame, starting from a
  session.
\<close>

fun idle_ticks :: "session \<Rightarrow> link_input list \<Rightarrow> bool" where
  "idle_ticks s [] = True"
| "idle_ticks s (e # es) =
     (rx e = None \<and> \<not> sendFrame_of e s \<and> idle_ticks (after (communication_update e s)) es)"

definition ticks :: "session \<Rightarrow> link_input list \<Rightarrow> session" where
  "ticks s es = foldl (\<lambda>t e. after (communication_update e t)) s es"

text \<open>
  A game in which this board serves: the switch is pushed, the peer acknowledges the
  start, and the ball crosses three times (out, back, out again). The last byte heard
  is the position half of the fourth crossing, so the run ends in \<^verbatim>\<open>RECIEVING\<close> with
  the sequence number 7.
\<close>

definition served_first :: "event list" where
  "served_first =
     [Tick pushed, Tick (heard START_ACK),
      SendPhysicsInfo 3 True 5, Tick (heard 0xD0), Tick (heard 0xD1),
      Tick (heard 0x24), Tick (heard 0x3A),
      SendPhysicsInfo 2 False 6, Tick (heard 0xD4), Tick (heard 0xD5),
      Tick (heard 0x61)]"

text \<open>
  This board served and both halves of its handoff have been acknowledged: it is in
  \<^verbatim>\<open>RECIEVING\<close> with the sequence number 2, and the next tick is a send frame.
\<close>

definition ball_sent :: "event list" where
  "ball_sent =
     [Tick pushed, Tick (heard START_ACK),
      SendPhysicsInfo 3 True 5, Tick (heard 0xD0), Tick (heard 0xD1), Tick silence]"

text \<open>The sequence number as the tick reduces it on entry (line 160).\<close>

abbreviation reduced :: "uint8_t \<Rightarrow> uint8_t" where
  "reduced n \<equiv> of_nat (unat n mod SEQ_NUMBER_LIMIT)"

text \<open>A packet that carries no event flag other than, possibly, \<^verbatim>\<open>physicsInfo\<close>.\<close>

definition payload_only :: "CommunicationPacket_t \<Rightarrow> bool" where
  "payload_only p = (\<not> startGame p \<and> \<not> endRound p \<and> \<not> gameOver p)"

section \<open>Auxiliary facts\<close>

lemmas code_defs =
  BLANK_BYTE_def START_CODE_def START_ACK_def END_CODE_def END_ACK_def GAME_OVER_CODE_def
  PREFIX_MASK_def SUFFIX_MASK_def THREE_MASK_def ONE_MASK_def PHYSICS_ACK_def
  SEQ_NUMBER_LIMIT_def

lemmas upd_defs =
  update_START_REC_def update_START_SEND_def update_RECIEVING_def update_WAITING_def
  update_SENDING_def update_END_ROUND_def update_GAME_OVER_def transmit_half_def finish_def

lemmas packet_defs =
  null_packet_def game_start_packet_def end_round_packet_def end_game_packet_def
  communication_physics_packet_def

subsection \<open>Bytes\<close>

lemma seq_cases:
  fixes k :: uint8_t
  assumes "unat k < 8"
  shows "k = 0 \<or> k = 1 \<or> k = 2 \<or> k = 3 \<or> k = 4 \<or> k = 5 \<or> k = 6 \<or> k = 7"
proof -
  have "unat k = 0 \<or> unat k = 1 \<or> unat k = 2 \<or> unat k = 3 \<or> unat k = 4
        \<or> unat k = 5 \<or> unat k = 6 \<or> unat k = 7"
    using assms by arith
  then show ?thesis by (simp add: word_unat_eq_iff)
qed

lemma nibble_cases:
  fixes q :: uint8_t
  assumes "unat q < 16"
  shows "q \<in> {0, 1, 2, 3, 4, 5, 6, 7, 8, 9, 10, 11, 12, 13, 14, 15}"
proof -
  have "unat q = 0 \<or> unat q = 1 \<or> unat q = 2 \<or> unat q = 3 \<or> unat q = 4
        \<or> unat q = 5 \<or> unat q = 6 \<or> unat q = 7 \<or> unat q = 8 \<or> unat q = 9
        \<or> unat q = 10 \<or> unat q = 11 \<or> unat q = 12 \<or> unat q = 13
        \<or> unat q = 14 \<or> unat q = 15"
    using assms by arith
  then show ?thesis by (simp add: word_unat_eq_iff)
qed

lemma and7_lt: "unat ((x :: uint8_t) AND 7) < 8"
proof -
  have "unat (x AND 7) \<le> unat (7 :: uint8_t)"
    by (rule word_and_le1 [THEN word_le_nat_alt [THEN iffD1]])
  then show ?thesis by simp
qed

lemma and15_lt: "unat ((x :: uint8_t) AND 15) < 16"
proof -
  have "unat (x AND 15) \<le> unat (15 :: uint8_t)"
    by (rule word_and_le1 [THEN word_le_nat_alt [THEN iffD1]])
  then show ?thesis by simp
qed

lemma codec_roundtrip:
  fixes n q :: uint8_t
  assumes "unat n < 8" "unat q < 16"
  shows "decode_seq (push_bit 4 n OR q) = n \<and> decode_data (push_bit 4 n OR q) = q"
  using seq_cases [OF assms(1)] nibble_cases [OF assms(2)]
  by (auto simp: decode_seq_def decode_data_def code_defs)

lemma norm_lt: "unat (of_nat (unat (n :: uint8_t) mod SEQ_NUMBER_LIMIT) :: uint8_t) < 8"
proof -
  have "unat n mod 8 < 8" by simp
  then have "unat (of_nat (unat n mod 8) :: uint8_t) = unat n mod 8"
    by (simp add: unat_of_nat)
  then show ?thesis by (simp add: SEQ_NUMBER_LIMIT_def)
qed

subsection \<open>The prologue, the gate and the dispatch\<close>

lemma prologue_fst:
  "fst (prologue e s) =
     s\<lparr>physicsSeqNumber := of_nat (unat (physicsSeqNumber s) mod SEQ_NUMBER_LIMIT),
       tickCount := fst (cadence_gate (write_ready e) (tickCount s)),
       readData := slot e s\<rparr>"
  by (simp add: prologue_def slot_def Let_def split: option.split)

lemma prologue_snd: "snd (prologue e s) = snd (cadence_gate (write_ready e) (tickCount s))"
  by (simp add: prologue_def Let_def)

lemma update_eq:
  "communication_update e s = dispatch (sendFrame_of e s) (nav_push e) (fst (prologue e s))"
  by (simp add: communication_update_def sendFrame_of_def Let_def)

lemma dispatch_sent_le: "length (sent (dispatch sf p s)) \<le> 1"
  by (cases "currentState s") (simp_all add: dispatch_def upd_defs Let_def)

lemma dispatch_sent_quiet: "sent (dispatch False p s) = []"
  by (cases "currentState s") (simp_all add: dispatch_def upd_defs Let_def)

lemma dispatch_seq:
  "physicsSeqNumber (after (dispatch sf p s)) = physicsSeqNumber s
   \<or> physicsSeqNumber (after (dispatch sf p s)) = physicsSeqNumber s + 1"
  by (cases "currentState s") (simp_all add: dispatch_def upd_defs Let_def)

lemma dispatch_tickCount: "tickCount (after (dispatch sf p s)) = tickCount s"
  by (cases "currentState s") (simp_all add: dispatch_def upd_defs Let_def)

lemma tickCount_after:
  "tickCount (after (communication_update e s)) = fst (cadence_gate (write_ready e) (tickCount s))"
  by (simp add: update_eq dispatch_tickCount prologue_fst)

lemma sendFrame_gate: "sendFrame_of e s = snd (cadence_gate (write_ready e) (tickCount s))"
  by (simp add: sendFrame_of_def prologue_snd)

lemma gate_0: "cadence_gate w 0 = (1, False)"
  by (simp add: cadence_gate_def)

lemma gate_1: "cadence_gate w 1 = (if w then (0, True) else (1, False))"
  by (simp add: cadence_gate_def)

lemma gate_fst: "fst (cadence_gate w tc) = (if snd (cadence_gate w tc) then 0 else 1)"
proof -
  have "(unat tc + 1) mod 2 = 0 \<or> (unat tc + 1) mod 2 = 1" by arith
  then show ?thesis by (auto simp: cadence_gate_def Let_def)
qed

lemma gate_deferred:
  "(unat tc + 1) mod 2 = 0 \<Longrightarrow> \<not> w \<Longrightarrow> fst (cadence_gate w tc) = 1"
  by (simp add: cadence_gate_def Let_def)

subsection \<open>The range of the sequence number\<close>

lemma send_info_seq:
  "unat (physicsSeqNumber s) \<le> 8 \<Longrightarrow>
   unat (physicsSeqNumber (communication_send_physics_info pR dR mC s)) \<le> 8"
proof -
  assume a: "unat (physicsSeqNumber s) \<le> 8"
  have "unat (physicsSeqNumber s) mod 2 = 1 \<Longrightarrow> unat (physicsSeqNumber s + 1) \<le> 8"
  proof -
    assume odd: "unat (physicsSeqNumber s) mod 2 = 1"
    with a have "unat (physicsSeqNumber s) < 8" by arith
    from seq_cases [OF this] show ?thesis by auto
  qed
  with a show ?thesis
    by (simp add: communication_send_physics_info_def Let_def)
qed

lemma update_seq_le: "unat (physicsSeqNumber (after (communication_update env s))) \<le> 8"
proof -
  let ?n = "physicsSeqNumber (fst (prologue env s))"
  have n: "unat ?n < 8" by (simp add: prologue_fst norm_lt)
  have "unat (?n + 1) \<le> 8"
    using seq_cases [OF n] by auto
  with n dispatch_seq [of "sendFrame_of env s" "nav_push env" "fst (prologue env s)"]
  show ?thesis by (auto simp: update_eq)
qed

lemma apply_event_seq:
  "unat (physicsSeqNumber s) \<le> 8 \<Longrightarrow> unat (physicsSeqNumber (apply_event s ev)) \<le> 8"
  by (cases ev)
    (simp_all add: communication_init_def communication_send_end_round_def
      communication_send_end_game_def send_info_seq update_seq_le)

lemma run_snoc: "run (evs @ [ev]) = apply_event (run evs) ev"
  by (simp add: run_def)

lemma run_seq_le: "unat (physicsSeqNumber (run evs)) \<le> 8"
proof (induction evs rule: rev_induct)
  case Nil
  show ?case by (simp add: run_def boot_def communication_init_def power_on_def)
next
  case (snoc ev evs)
  then show ?case by (simp add: run_snoc apply_event_seq)
qed

subsection \<open>The codec\<close>

lemma le_unat7: "(x :: uint8_t) \<le> 7 \<Longrightarrow> unat x < 8"
  by (simp add: word_le_nat_alt)

lemma le_unat15: "(x :: uint8_t) \<le> 15 \<Longrightarrow> unat x < 16"
  by (simp add: word_le_nat_alt)

lemma and7_keep: "x AND 7 = x" if "x \<le> 7" for x :: uint8_t
  using seq_cases [OF le_unat7 [OF that]] by auto

lemma position_roundtrip:
  assumes "unat n < 8"
  shows "decode_seq (encode_position_half n (communication_physics_packet pR dR mC)) = n
         \<and> decode_data (encode_position_half n (communication_physics_packet pR dR mC))
             = pR AND 7"
proof -
  have "unat (pR AND 7) < 16" using and7_lt [of pR] by simp
  from codec_roundtrip [OF assms this] show ?thesis
    by (simp add: encode_position_half_def packet_defs THREE_MASK_def)
qed

lemma velocity_nibble:
  "(THREE_MASK AND (mC AND THREE_MASK)) OR (if dR then ONE_MASK else 0)
     = (mC AND 7) OR (if dR then 8 else 0)
   \<and> unat ((mC AND 7) OR (if dR then 8 else (0 :: uint8_t))) < 16
   \<and> (0 < ((mC AND 7) OR (if dR then 8 else 0)) AND ONE_MASK) = dR
   \<and> ((mC AND 7) OR (if dR then 8 else 0)) AND THREE_MASK = mC AND 7"
  using seq_cases [OF and7_lt [of mC]] by (cases dR) (auto simp: code_defs)

lemma velocity_roundtrip:
  assumes "unat n < 8"
  shows "decode_seq (encode_velocity_half n (communication_physics_packet pR dR mC)) = n
         \<and> decode_data (encode_velocity_half n (communication_physics_packet pR dR mC))
             = (mC AND 7) OR (if dR then 8 else 0)"
proof -
  let ?q = "(mC AND 7) OR (if dR then 8 else (0 :: uint8_t))"
  have e: "encode_velocity_half n (communication_physics_packet pR dR mC) = push_bit 4 n OR ?q"
    using velocity_nibble [of mC dR]
    by (simp add: encode_velocity_half_def packet_defs or.assoc)
  have "unat ?q < 16" using velocity_nibble [of mC dR] by simp
  from codec_roundtrip [OF assms this] show ?thesis
    by (simp only: e) 
qed

lemma nibble_split:
  fixes q :: uint8_t
  assumes "unat q < 16"
  shows "(q AND 7) OR (if 0 < q AND ONE_MASK then 8 else 0) = q"
  using nibble_cases [OF assms] by (auto simp: code_defs)

subsection \<open>The flags of the pending packet\<close>

lemma dispatch_payload_only:
  "payload_only (physicsPacket s) \<Longrightarrow> payload_only (physicsPacket (after (dispatch sf p s)))"
  by (cases "currentState s") (simp_all add: dispatch_def upd_defs Let_def payload_only_def)

lemma dispatch_flag_count:
  "payload_only (physicsPacket s) \<Longrightarrow> flag_count (packet (dispatch sf p s)) \<le> 1"
  by (cases "currentState s")
    (simp_all add: dispatch_def upd_defs Let_def payload_only_def flag_count_def packet_defs)

lemma apply_event_payload_only:
  "payload_only (physicsPacket s) \<Longrightarrow> payload_only (physicsPacket (apply_event s ev))"
proof (cases ev)
  case (Tick env)
  assume "payload_only (physicsPacket s)"
  then show ?thesis
    by (simp add: Tick update_eq prologue_fst dispatch_payload_only)
qed (simp_all add: communication_init_def communication_send_end_round_def
      communication_send_end_game_def communication_send_physics_info_def Let_def
      payload_only_def packet_defs)

lemma run_payload_only: "payload_only (physicsPacket (run evs))"
proof (induction evs rule: rev_induct)
  case Nil
  show ?case
    by (simp add: run_def boot_def communication_init_def payload_only_def packet_defs)
next
  case (snoc ev evs)
  then show ?case by (simp add: run_snoc apply_event_payload_only)
qed

lemma dispatch_default:
  "packet (dispatch sf p s) \<noteq> null_packet \<Longrightarrow>
   (currentState s, currentState (after (dispatch sf p s)))
     \<in> {(START_REC, RECIEVING), (START_SEND, WAITING), (RECIEVING, GAME_OVER),
        (RECIEVING, START_REC), (RECIEVING, WAITING)}"
  by (cases "currentState s")
    (simp_all add: dispatch_def upd_defs Let_def code_defs split: if_split_asm)

subsection \<open>The states \<^verbatim>\<open>RECIEVING\<close> and \<^verbatim>\<open>WAITING\<close>\<close>

lemma not_code:
  assumes "unat (decode_seq b) < 8"
  shows "b \<noteq> START_CODE \<and> b \<noteq> GAME_OVER_CODE \<and> b \<noteq> END_CODE \<and> b \<noteq> BLANK_BYTE"
  using assms by (auto simp: decode_seq_def code_defs)

lemma last_seq_lt: "unat (last_seq n) < 8"
proof -
  have "(unat n + 8 - 1) mod 8 < 8" by simp
  then have "unat (of_nat ((unat n + 8 - 1) mod 8) :: uint8_t) = (unat n + 8 - 1) mod 8"
    by (simp add: unat_of_nat)
  then show ?thesis by (simp add: last_seq_def SEQ_NUMBER_LIMIT_def)
qed

lemma last_seq_neq: "unat n < 8 \<Longrightarrow> last_seq n \<noteq> n"
  using seq_cases [of n] by (auto simp: last_seq_def SEQ_NUMBER_LIMIT_def)

lemma last_seq_succ:
  fixes k :: uint8_t
  assumes "unat k < 8"
  shows "last_seq (of_nat (unat (k + 1) mod SEQ_NUMBER_LIMIT)) = k"
  using seq_cases [OF assms] by (auto simp: last_seq_def SEQ_NUMBER_LIMIT_def)

lemma norm_id: "unat (n :: uint8_t) < 8 \<Longrightarrow> of_nat (unat n mod SEQ_NUMBER_LIMIT) = n"
  by (simp add: SEQ_NUMBER_LIMIT_def)

lemma recv_previous:
  assumes "decode_seq (readData t) = last_seq (physicsSeqNumber t)"
    and "unat (physicsSeqNumber t) < 8"
  shows "update_RECIEVING sf t =
     (if sf then finish (t\<lparr>readData := BLANK_BYTE\<rparr>) null_packet
                  [PHYSICS_ACK OR last_seq (physicsSeqNumber t)] False
      else finish t null_packet [] False)"
proof -
  have "unat (decode_seq (readData t)) < 8"
    using assms(1) last_seq_lt [of "physicsSeqNumber t"] by simp
  from not_code [OF this] last_seq_neq [OF assms(2)] assms(1) show ?thesis
    by (simp add: update_RECIEVING_def Let_def)
qed

lemma recv_current:
  assumes "decode_seq (readData t) = physicsSeqNumber t"
    and "unat (physicsSeqNumber t) < 8"
  shows "update_RECIEVING sf t =
     (let data = decode_data (readData t);
          bs = (if sf then [PHYSICS_ACK OR physicsSeqNumber t] else []);
          t1 = (if sf then t\<lparr>readData := BLANK_BYTE\<rparr> else t)
      in if unat (physicsSeqNumber t) mod 2 = 0 then
           finish (t1\<lparr>physicsPacket := (physicsPacket t)\<lparr>posR := data\<rparr>,
                       physicsSeqNumber := physicsSeqNumber t + 1\<rparr>)
             null_packet bs False
         else
           finish (t1\<lparr>physicsPacket := (physicsPacket t)\<lparr>dirR := (data AND ONE_MASK) > 0,
                                                         magC := data AND THREE_MASK\<rparr>,
                       physicsSeqNumber := physicsSeqNumber t + 1,
                       currentState := WAITING\<rparr>)
             ((physicsPacket t)\<lparr>dirR := (data AND ONE_MASK) > 0,
                                magC := data AND THREE_MASK\<rparr>) bs False)"
proof -
  have "unat (decode_seq (readData t)) < 8"
    using assms by simp
  from not_code [OF this] assms(1) show ?thesis
    by (simp add: update_RECIEVING_def Let_def)
qed

lemma tick_RECIEVING:
  "currentState s = RECIEVING \<Longrightarrow>
   communication_update e s = update_RECIEVING (sendFrame_of e s) (fst (prologue e s))"
  by (simp add: update_eq dispatch_def prologue_fst)

lemma tick_WAITING:
  "currentState s = WAITING \<Longrightarrow>
   communication_update e s = update_WAITING (sendFrame_of e s) (fst (prologue e s))"
  by (simp add: update_eq dispatch_def prologue_fst)

lemma tick_START_REC:
  "currentState s = START_REC \<Longrightarrow>
   communication_update e s =
     update_START_REC (sendFrame_of e s) (nav_push e) (fst (prologue e s))"
  by (simp add: update_eq dispatch_def prologue_fst)

subsection \<open>Ticks on which nothing arrives and nothing may be sent\<close>

lemma ticks_Nil: "ticks s [] = s"
  by (simp add: ticks_def)

lemma ticks_Cons: "ticks s (e # es) = ticks (after (communication_update e s)) es"
  by (simp add: ticks_def)

lemma reduced_lt: "unat (reduced n) < 8"
  by (rule norm_lt)

lemma reduced_reduced: "reduced (reduced n) = reduced n"
  by (rule norm_id [OF norm_lt])

lemma prologue_seq: "physicsSeqNumber (fst (prologue e s)) = reduced (physicsSeqNumber s)"
  by (simp add: prologue_fst)

lemma prologue_slot: "readData (fst (prologue e s)) = slot e s"
  by (simp add: prologue_fst)

lemma slot_None: "rx e = None \<Longrightarrow> slot e s = readData s"
  by (simp add: slot_def)

lemma slot_Some: "rx e = Some b \<Longrightarrow> slot e s = b"
  by (simp add: slot_def)

lemma recv_start_idle:
  assumes "readData t = START_CODE" and "unat (physicsSeqNumber t) < 8"
  shows "update_RECIEVING False t = finish t null_packet [] False"
proof -
  have d: "decode_seq START_CODE = 15" by (simp add: decode_seq_def code_defs)
  have "(15 :: uint8_t) \<noteq> physicsSeqNumber t"
    using assms(2) by auto
  moreover have "(15 :: uint8_t) \<noteq> last_seq (physicsSeqNumber t)"
    using last_seq_lt [of "physicsSeqNumber t"] by auto
  ultimately show ?thesis
    using assms(1) by (simp add: update_RECIEVING_def Let_def d) (simp add: code_defs)
qed

text \<open>A tick on which nothing arrives and nothing may be sent.\<close>

lemma idle_tick:
  assumes "currentState s = RECIEVING \<or> currentState s = WAITING"
    and "rx e = None" and "\<not> sendFrame_of e s"
    and "readData s = START_CODE
         \<or> decode_seq (readData s) = last_seq (reduced (physicsSeqNumber s))"
  shows "communication_update e s =
           finish (fst (prologue e s)) null_packet [] False"
proof -
  let ?t = "fst (prologue e s)"
  have r: "readData ?t = readData s"
    using assms(2) by (simp add: prologue_slot slot_None)
  have u: "unat (physicsSeqNumber ?t) < 8"
    by (simp add: prologue_seq reduced_lt)
  from assms(1) show ?thesis
  proof
    assume st: "currentState s = RECIEVING"
    from assms(4) show ?thesis
    proof
      assume "readData s = START_CODE"
      then have "readData ?t = START_CODE" using r by simp
      from recv_start_idle [OF this u] assms(3) show ?thesis
        by (simp add: tick_RECIEVING [OF st])
    next
      assume "decode_seq (readData s) = last_seq (reduced (physicsSeqNumber s))"
      then have "decode_seq (readData ?t) = last_seq (physicsSeqNumber ?t)"
        using r by (simp add: prologue_seq)
      from recv_previous [OF this u] assms(3) show ?thesis
        by (simp add: tick_RECIEVING [OF st])
    qed
  next
    assume st: "currentState s = WAITING"
    from assms(3) show ?thesis
      by (simp add: tick_WAITING [OF st] update_WAITING_def Let_def)
  qed
qed

lemma idle_tick_fields:
  assumes "currentState s = RECIEVING \<or> currentState s = WAITING"
    and "rx e = None" and "\<not> sendFrame_of e s"
    and "readData s = START_CODE
         \<or> decode_seq (readData s) = last_seq (reduced (physicsSeqNumber s))"
  shows "currentState (after (communication_update e s)) = currentState s
         \<and> readData (after (communication_update e s)) = readData s
         \<and> physicsPacket (after (communication_update e s)) = physicsPacket s
         \<and> reduced (physicsSeqNumber (after (communication_update e s)))
             = reduced (physicsSeqNumber s)"
  using assms(2)
  by (simp add: idle_tick [OF assms] finish_def prologue_fst slot_None reduced_reduced)

lemma idle_ticks_keep:
  assumes "currentState s = RECIEVING \<or> currentState s = WAITING"
    and "readData s = START_CODE
         \<or> decode_seq (readData s) = last_seq (reduced (physicsSeqNumber s))"
    and "idle_ticks s es"
  shows "currentState (ticks s es) = currentState s
         \<and> readData (ticks s es) = readData s
         \<and> physicsPacket (ticks s es) = physicsPacket s
         \<and> reduced (physicsSeqNumber (ticks s es)) = reduced (physicsSeqNumber s)"
  using assms
proof (induction es arbitrary: s)
  case Nil
  show ?case by (simp add: ticks_Nil)
next
  case (Cons e es)
  from Cons.prems(3) have e: "rx e = None" "\<not> sendFrame_of e s"
    and rest: "idle_ticks (after (communication_update e s)) es"
    by simp_all
  note f = idle_tick_fields [OF Cons.prems(1) e Cons.prems(2)]
  have "currentState (ticks (after (communication_update e s)) es)
          = currentState (after (communication_update e s))
        \<and> readData (ticks (after (communication_update e s)) es)
          = readData (after (communication_update e s))
        \<and> physicsPacket (ticks (after (communication_update e s)) es)
          = physicsPacket (after (communication_update e s))
        \<and> reduced (physicsSeqNumber (ticks (after (communication_update e s)) es))
          = reduced (physicsSeqNumber (after (communication_update e s)))"
    using Cons.prems(1,2) f rest by (intro Cons.IH) simp_all
  with f show ?case by (simp add: ticks_Cons)
qed

lemma previous_tick:
  assumes "currentState s = RECIEVING \<or> currentState s = WAITING"
    and "decode_seq (slot e s) = last_seq (reduced (physicsSeqNumber s))"
  shows "communication_update e s =
     (if sendFrame_of e s
      then finish ((fst (prologue e s))\<lparr>readData := BLANK_BYTE\<rparr>) null_packet
             [PHYSICS_ACK OR last_seq (reduced (physicsSeqNumber s))] False
      else finish (fst (prologue e s)) null_packet [] False)"
proof -
  let ?t = "fst (prologue e s)"
  have d: "decode_seq (readData ?t) = last_seq (physicsSeqNumber ?t)"
    using assms(2) by (simp add: prologue_slot prologue_seq)
  have u: "unat (physicsSeqNumber ?t) < 8"
    by (simp add: prologue_seq reduced_lt)
  from assms(1) show ?thesis
  proof
    assume st: "currentState s = RECIEVING"
    show ?thesis
      by (simp add: tick_RECIEVING [OF st] recv_previous [OF d u] prologue_seq)
  next
    assume st: "currentState s = WAITING"
    show ?thesis
      using d by (simp add: tick_WAITING [OF st] update_WAITING_def Let_def prologue_seq)
  qed
qed

lemma current_tick:
  assumes "currentState s = RECIEVING"
    and "decode_seq (slot e s) = reduced (physicsSeqNumber s)"
  shows "physicsSeqNumber (after (communication_update e s)) = reduced (physicsSeqNumber s) + 1"
    and "readData (after (communication_update e s))
           = (if sendFrame_of e s then BLANK_BYTE else slot e s)"
    and "sent (communication_update e s)
           = (if sendFrame_of e s then [PHYSICS_ACK OR reduced (physicsSeqNumber s)] else [])"
    and "unat (reduced (physicsSeqNumber s)) mod 2 = 0 \<Longrightarrow>
           physicsPacket (after (communication_update e s))
             = (physicsPacket s)\<lparr>posR := decode_data (slot e s)\<rparr>
           \<and> currentState (after (communication_update e s)) = RECIEVING
           \<and> packet (communication_update e s) = null_packet"
    and "unat (reduced (physicsSeqNumber s)) mod 2 \<noteq> 0 \<Longrightarrow>
           physicsPacket (after (communication_update e s))
             = (physicsPacket s)\<lparr>dirR := 0 < decode_data (slot e s) AND ONE_MASK,
                                  magC := decode_data (slot e s) AND THREE_MASK\<rparr>
           \<and> currentState (after (communication_update e s)) = WAITING
           \<and> packet (communication_update e s)
               = physicsPacket (after (communication_update e s))"
proof -
  let ?t = "fst (prologue e s)"
  have d: "decode_seq (readData ?t) = physicsSeqNumber ?t"
    using assms(2) by (simp add: prologue_slot prologue_seq)
  have u: "unat (physicsSeqNumber ?t) < 8"
    by (simp add: prologue_seq reduced_lt)
  note r = tick_RECIEVING [OF assms(1)] recv_current [OF d u] Let_def finish_def
  show "physicsSeqNumber (after (communication_update e s)) = reduced (physicsSeqNumber s) + 1"
    by (simp add: r prologue_seq)
  show "readData (after (communication_update e s))
           = (if sendFrame_of e s then BLANK_BYTE else slot e s)"
    by (simp add: r prologue_slot)
  show "sent (communication_update e s)
           = (if sendFrame_of e s then [PHYSICS_ACK OR reduced (physicsSeqNumber s)] else [])"
    by (simp add: r prologue_seq)
  show "unat (reduced (physicsSeqNumber s)) mod 2 = 0 \<Longrightarrow>
           physicsPacket (after (communication_update e s))
             = (physicsPacket s)\<lparr>posR := decode_data (slot e s)\<rparr>
           \<and> currentState (after (communication_update e s)) = RECIEVING
           \<and> packet (communication_update e s) = null_packet"
    using assms(1) by (simp add: r) (simp add: prologue_fst)
  show "unat (reduced (physicsSeqNumber s)) mod 2 \<noteq> 0 \<Longrightarrow>
           physicsPacket (after (communication_update e s))
             = (physicsPacket s)\<lparr>dirR := 0 < decode_data (slot e s) AND ONE_MASK,
                                  magC := decode_data (slot e s) AND THREE_MASK\<rparr>
           \<and> currentState (after (communication_update e s)) = WAITING
           \<and> packet (communication_update e s)
               = physicsPacket (after (communication_update e s))"
    by (simp add: r) (simp add: prologue_fst)
qed

lemma current_tick_state:
  assumes "currentState s = RECIEVING"
    and "decode_seq (slot e s) = reduced (physicsSeqNumber s)"
  shows "currentState (after (communication_update e s)) = RECIEVING
         \<or> currentState (after (communication_update e s)) = WAITING"
  using current_tick(4,5) [OF assms] by blast

lemma reduced_succ:
  "reduced n \<noteq> 7 \<Longrightarrow> reduced (reduced n + 1) = reduced n + 1"
  using seq_cases [OF reduced_lt [of n]] by (auto simp: SEQ_NUMBER_LIMIT_def)

lemma even_succ_odd:
  "unat (reduced n) mod 2 = 0 \<Longrightarrow>
   reduced (reduced n + 1) = reduced n + 1 \<and> unat (reduced n + 1) mod 2 \<noteq> 0"
  using seq_cases [OF reduced_lt [of n]] by (auto simp: SEQ_NUMBER_LIMIT_def)

lemma nibble_bit3:
  fixes b :: uint8_t
  assumes "b AND ONE_MASK \<noteq> 0"
  shows "8 \<le> decode_data b"
proof -
  have "(b AND 15) AND 8 = b AND 8"
    by (simp add: and.assoc)
  with assms have "(b AND 15) AND 8 \<noteq> 0" by (simp add: ONE_MASK_def)
  with nibble_cases [OF and15_lt [of b]] show ?thesis
    by (auto simp: decode_data_def SUFFIX_MASK_def)
qed

lemma sender_masks:
  "posR (communication_physics_packet pR dR mC) \<le> 7
   \<and> magC (communication_physics_packet pR dR mC) \<le> 7"
  by (simp add: communication_physics_packet_def null_packet_def THREE_MASK_def word_and_le1)

section \<open>The claims\<close>

subsection \<open>C1: the range of the sequence number\<close>

text \<open>
  C1, as amended. The tick reduces the sequence number modulo 8 on entry and increments
  it at most once afterwards, and nothing reduces it again before the tick returns. So in
  every reachable session, and after every tick from any session, the sequence number is
  in the range 0 to 8; the value the \<^verbatim>\<open>switch\<close> of the tick works with (the one after the
  reduction on entry) is in the range 0 to 7.
\<close>

theorem C1_seq_bound:
  "unat (physicsSeqNumber (run evs)) \<le> 8
   \<and> unat (physicsSeqNumber (after (communication_update env s))) \<le> 8
   \<and> unat (physicsSeqNumber (fst (prologue env s))) \<le> 7"
proof -
  have "unat (physicsSeqNumber (fst (prologue env s))) < 8"
    by (simp add: prologue_fst norm_lt)
  then show ?thesis
    using run_seq_le [of evs] update_seq_le [of env s] by simp
qed

text \<open>
  C1 as stated fails: in the game \<open>served_first\<close> the board is in \<^verbatim>\<open>RECIEVING\<close> with the
  sequence number 7; the tick that hears the velocity half \<^verbatim>\<open>0x7D\<close> increments it to 8
  and returns.
\<close>

theorem C1_counterexample:
  "\<not> unat (physicsSeqNumber
        (after (communication_update (heard 0x7D) (run served_first)))) \<le> 7"
  by code_simp

subsection \<open>C2: the codec\<close>

text \<open>
  C2, as amended. For a sequence number from 0 to 7, the byte written for either half
  decodes to that sequence number in its top four bits. The position half carries
  \<^verbatim>\<open>posR & 7\<close> in its bottom four bits, which is the position itself exactly for
  positions from 0 to 7. The velocity half carries the magnitude \<^verbatim>\<open>magC & 7\<close> in bits 0
  to 2 and the direction in bit 3, and the receiver's reading of the nibble gives both
  back; every payload nibble from 0 to 15 comes back unchanged. The unmasked byte of
  line 321, \<^verbatim>\<open>seqCode | physicsPacket.posR\<close>, decodes to the stored position for every
  stored position from 0 to 15.
\<close>

theorem C2_codec:
  "seq \<le> 7 \<longrightarrow>
     decode_seq (encode_position_half seq (communication_physics_packet pR dR mC)) = seq
     \<and> decode_data (encode_position_half seq (communication_physics_packet pR dR mC))
         = pR AND 7
     \<and> (pR \<le> 7 \<longrightarrow>
          decode_data (encode_position_half seq (communication_physics_packet pR dR mC)) = pR)
     \<and> decode_seq (encode_velocity_half seq (communication_physics_packet pR dR mC)) = seq
     \<and> (payload \<le> 15 \<longrightarrow>
          decode_data (encode_velocity_half seq
            (communication_physics_packet pR (0 < payload AND ONE_MASK) payload)) = payload)
     \<and> (0 < decode_data (encode_velocity_half seq (communication_physics_packet pR dR mC))
              AND ONE_MASK) = dR
     \<and> decode_data (encode_velocity_half seq (communication_physics_packet pR dR mC))
           AND THREE_MASK = mC AND 7
     \<and> (payload \<le> 15 \<longrightarrow>
          decode_seq (encode_position_half seq (p\<lparr>posR := payload\<rparr>)) = seq
          \<and> decode_data (encode_position_half seq (p\<lparr>posR := payload\<rparr>)) = payload)"
proof
  assume "seq \<le> 7"
  then have n: "unat seq < 8" by (rule le_unat7)
  note pos = position_roundtrip [OF n, of pR dR mC]
  note vel = velocity_roundtrip [OF n, of pR dR mC]
  have a: "pR \<le> 7 \<Longrightarrow>
      decode_data (encode_position_half seq (communication_physics_packet pR dR mC)) = pR"
    using pos by (simp add: and7_keep)
  have b: "decode_data (encode_velocity_half seq
            (communication_physics_packet pR (0 < payload AND ONE_MASK) payload)) = payload"
    if "payload \<le> 15"
    using velocity_roundtrip [OF n, of pR "0 < payload AND ONE_MASK" payload]
      nibble_split [OF le_unat15 [OF that]] by simp
  have c: "decode_seq (encode_position_half seq (p\<lparr>posR := payload\<rparr>)) = seq
          \<and> decode_data (encode_position_half seq (p\<lparr>posR := payload\<rparr>)) = payload"
    if "payload \<le> 15"
    using codec_roundtrip [OF n le_unat15 [OF that]] by (simp add: encode_position_half_def)
  show "decode_seq (encode_position_half seq (communication_physics_packet pR dR mC)) = seq
     \<and> decode_data (encode_position_half seq (communication_physics_packet pR dR mC))
         = pR AND 7
     \<and> (pR \<le> 7 \<longrightarrow>
          decode_data (encode_position_half seq (communication_physics_packet pR dR mC)) = pR)
     \<and> decode_seq (encode_velocity_half seq (communication_physics_packet pR dR mC)) = seq
     \<and> (payload \<le> 15 \<longrightarrow>
          decode_data (encode_velocity_half seq
            (communication_physics_packet pR (0 < payload AND ONE_MASK) payload)) = payload)
     \<and> (0 < decode_data (encode_velocity_half seq (communication_physics_packet pR dR mC))
              AND ONE_MASK) = dR
     \<and> decode_data (encode_velocity_half seq (communication_physics_packet pR dR mC))
           AND THREE_MASK = mC AND 7
     \<and> (payload \<le> 15 \<longrightarrow>
          decode_seq (encode_position_half seq (p\<lparr>posR := payload\<rparr>)) = seq
          \<and> decode_data (encode_position_half seq (p\<lparr>posR := payload\<rparr>)) = payload)"
    using pos vel a b c velocity_nibble [of mC dR] by simp
qed

text \<open>The theorem at the sequence number 2, the position 3 and the velocity nibble 13.\<close>

theorem C2_witness:
  "(2 :: uint8_t) \<le> 7 \<and> (3 :: uint8_t) \<le> 7 \<and> (13 :: uint8_t) \<le> 15
   \<and> decode_seq (encode_position_half 2 (communication_physics_packet 3 True 5)) = 2
   \<and> decode_data (encode_position_half 2 (communication_physics_packet 3 True 5)) = 3
   \<and> decode_data (encode_velocity_half 2
        (communication_physics_packet 3 (0 < 13 AND ONE_MASK) 13)) = 13"
  using C2_codec [of 2 3 True 5 13 null_packet] by simp

text \<open>
  C2 as stated fails for the position half when the payload is above 7: the position 9
  is sent as \<^verbatim>\<open>9 & 7\<close> and decodes to 1.
\<close>

theorem C2_counterexample:
  "(2 :: uint8_t) \<le> 7 \<and> (9 :: uint8_t) \<le> 15
   \<and> decode_data (encode_position_half 2 (communication_physics_packet 9 True 5)) = 1
   \<and> decode_data (encode_position_half 2 (communication_physics_packet 9 True 5)) \<noteq> 9"
  by code_simp

subsection \<open>C3: the same data byte on two successive ticks\<close>

text \<open>
  C3, as amended. In \<^verbatim>\<open>RECIEVING\<close>, when the same byte carrying the current sequence
  number arrives on two successive ticks, the first tick stores the payload and advances
  the sequence number, and the second tick changes neither the stored payload nor the
  state, returns the packet with no flag, and writes nothing or, on a send frame, the
  acknowledgement of the sequence number the byte carries (now the previous one). The
  sequence number after the second tick is the number after the first tick reduced
  modulo 8: the same number unless the byte carried the sequence number 7, where the
  first tick leaves 8 and the second leaves 0.
\<close>

theorem C3_duplicate:
  assumes "currentState s = RECIEVING"
    and "rx e1 = Some b" and "rx e2 = Some b"
    and "decode_seq b = reduced (physicsSeqNumber s)"
  shows "let k = reduced (physicsSeqNumber s);
             r1 = communication_update e1 s;
             r2 = communication_update e2 (after r1)
         in physicsSeqNumber (after r1) = k + 1
            \<and> (unat k mod 2 = 0 \<longrightarrow>
                 physicsPacket (after r1) = (physicsPacket s)\<lparr>posR := decode_data b\<rparr>)
            \<and> (unat k mod 2 \<noteq> 0 \<longrightarrow>
                 physicsPacket (after r1)
                   = (physicsPacket s)\<lparr>dirR := 0 < decode_data b AND ONE_MASK,
                                        magC := decode_data b AND THREE_MASK\<rparr>)
            \<and> physicsPacket (after r2) = physicsPacket (after r1)
            \<and> currentState (after r2) = currentState (after r1)
            \<and> physicsSeqNumber (after r2) = reduced (physicsSeqNumber (after r1))
            \<and> (k \<noteq> 7 \<longrightarrow> physicsSeqNumber (after r2) = physicsSeqNumber (after r1))
            \<and> packet r2 = null_packet
            \<and> sent r2 = (if sendFrame_of e2 (after r1) then [PHYSICS_ACK OR k] else [])"
proof -
  define k where "k = reduced (physicsSeqNumber s)"
  define r1 where "r1 = communication_update e1 s"
  define r2 where "r2 = communication_update e2 (after r1)"
  have d1: "decode_seq (slot e1 s) = reduced (physicsSeqNumber s)"
    using assms(4) by (simp add: slot_Some [OF assms(2)])
  note cur = current_tick [OF assms(1) d1, folded k_def r1_def, unfolded slot_Some [OF assms(2)]]
  have kl: "unat k < 8" by (simp add: k_def reduced_lt)
  have st: "currentState (after r1) = RECIEVING \<or> currentState (after r1) = WAITING"
    using current_tick_state [OF assms(1) d1] by (simp add: r1_def)
  have l: "last_seq (reduced (physicsSeqNumber (after r1))) = k"
    by (simp only: cur(1) last_seq_succ [OF kl])
  have d2: "decode_seq (slot e2 (after r1)) = last_seq (reduced (physicsSeqNumber (after r1)))"
    using assms(4) by (simp only: slot_Some [OF assms(3)] l k_def)
  note prev = previous_tick [OF st d2, folded r2_def, unfolded l]
  have second: "physicsPacket (after r2) = physicsPacket (after r1)
      \<and> currentState (after r2) = currentState (after r1)
      \<and> physicsSeqNumber (after r2) = reduced (physicsSeqNumber (after r1))
      \<and> packet r2 = null_packet
      \<and> sent r2 = (if sendFrame_of e2 (after r1) then [PHYSICS_ACK OR k] else [])"
    by (simp add: prev finish_def prologue_fst)
  have same: "k \<noteq> 7 \<Longrightarrow> physicsSeqNumber (after r2) = physicsSeqNumber (after r1)"
    using second reduced_succ [of "physicsSeqNumber s"] by (simp add: cur(1) k_def)
  show ?thesis
    unfolding Let_def k_def [symmetric] r1_def [symmetric] r2_def [symmetric]
    using cur(1,4,5) second same by simp
qed

text \<open>The theorem after the start code has been heard, for the position half \<^verbatim>\<open>0x05\<close>.\<close>

theorem C3_witness:
  "let s = run [Tick (heard START_CODE)];
       r1 = communication_update (heard 0x05) s;
       r2 = communication_update (heard 0x05) (after r1)
   in currentState s = RECIEVING
      \<and> rx (heard 0x05) = Some 0x05
      \<and> decode_seq 0x05 = reduced (physicsSeqNumber s)
      \<and> reduced (physicsSeqNumber s) \<noteq> 7
      \<and> unat (reduced (physicsSeqNumber s)) mod 2 = 0
      \<and> physicsPacket (after r1) = (physicsPacket s)\<lparr>posR := decode_data 0x05\<rparr>
      \<and> physicsPacket (after r2) = physicsPacket (after r1)
      \<and> physicsSeqNumber (after r2) = physicsSeqNumber (after r1)"
proof -
  let ?s = "run [Tick (heard START_CODE)]"
  have a1: "currentState ?s = RECIEVING" by code_simp
  have a2: "rx (heard 0x05) = Some 0x05" by code_simp
  have a3: "decode_seq 0x05 = reduced (physicsSeqNumber ?s)" by code_simp
  have a4: "reduced (physicsSeqNumber ?s) \<noteq> 7" by code_simp
  have a5: "unat (reduced (physicsSeqNumber ?s)) mod 2 = 0" by code_simp
  from C3_duplicate [OF a1 a2 a2 a3] a1 a2 a3 a4 a5 show ?thesis
    unfolding Let_def by blast
qed

text \<open>
  C3 as stated fails for the sequence number 7: in the game \<open>served_first\<close> the board is
  in \<^verbatim>\<open>RECIEVING\<close> with the sequence number 7, and the velocity half \<^verbatim>\<open>0x7D\<close> heard on
  two successive ticks leaves the sequence number 8 after the first and 0 after the
  second.
\<close>

theorem C3_counterexample:
  "currentState (run served_first) = RECIEVING
   \<and> decode_seq 0x7D = reduced (physicsSeqNumber (run served_first))
   \<and> physicsSeqNumber (after (communication_update (heard 0x7D) (run served_first))) = 8
   \<and> physicsSeqNumber (after (communication_update (heard 0x7D)
        (after (communication_update (heard 0x7D) (run served_first))))) = 0
   \<and> physicsSeqNumber (after (communication_update (heard 0x7D)
        (after (communication_update (heard 0x7D) (run served_first)))))
      \<noteq> physicsSeqNumber (after (communication_update (heard 0x7D) (run served_first)))"
  by code_simp

subsection \<open>C4: the cadence of the link\<close>

text \<open>
  C4. For three successive ticks from any session: a tick writes at most one byte; it
  writes only when it is a send frame; two successive ticks are never both send frames,
  so they never both write; after a send frame, the tick after the next is a send frame
  exactly when the link is ready to write; and when the tick count comes back to 0 on a
  tick but the link is not ready, the very next tick is a send frame exactly when the
  link is ready then.
\<close>

theorem C4_cadence:
  "let r1 = communication_update e1 s;
       r2 = communication_update e2 (after r1)
   in length (sent r1) \<le> 1
      \<and> (sent r1 \<noteq> [] \<longrightarrow> sendFrame_of e1 s)
      \<and> \<not> (sendFrame_of e1 s \<and> sendFrame_of e2 (after r1))
      \<and> \<not> (sent r1 \<noteq> [] \<and> sent r2 \<noteq> [])
      \<and> (sendFrame_of e1 s \<longrightarrow> sendFrame_of e3 (after r2) = write_ready e3)
      \<and> ((unat (tickCount s) + 1) mod 2 = 0 \<and> \<not> write_ready e1
           \<longrightarrow> sendFrame_of e2 (after r1) = write_ready e2)"
proof -
  define r1 where "r1 = communication_update e1 s"
  define r2 where "r2 = communication_update e2 (after r1)"
  have quiet: "sent (communication_update e t) \<noteq> [] \<Longrightarrow> sendFrame_of e t" for e t
    by (cases "sendFrame_of e t") (simp_all add: update_eq dispatch_sent_quiet)
  have one: "length (sent r1) \<le> 1"
    unfolding r1_def update_eq by (rule dispatch_sent_le)
  have tc1: "tickCount (after r1) = (if sendFrame_of e1 s then 0 else 1)"
    by (simp add: r1_def tickCount_after sendFrame_gate gate_fst)
  have tc2: "tickCount (after r2) = (if sendFrame_of e2 (after r1) then 0 else 1)"
    by (simp add: r2_def tickCount_after sendFrame_gate gate_fst)
  have alt: "\<not> (sendFrame_of e1 s \<and> sendFrame_of e2 (after r1))"
    by (simp add: sendFrame_gate [of e2] tc1 gate_0)
  have third: "sendFrame_of e1 s \<Longrightarrow> sendFrame_of e3 (after r2) = write_ready e3"
    using alt by (simp add: sendFrame_gate [of e3] tc2 gate_1)
  have deferred: "(unat (tickCount s) + 1) mod 2 = 0 \<Longrightarrow> \<not> write_ready e1
      \<Longrightarrow> sendFrame_of e2 (after r1) = write_ready e2"
    by (simp add: sendFrame_gate [of e2] r1_def tickCount_after gate_deferred gate_1)
  have two: "\<not> (sent r1 \<noteq> [] \<and> sent r2 \<noteq> [])"
    using alt quiet [of e1 s] quiet [of e2 "after r1"] by (auto simp: r1_def r2_def)
  show ?thesis
    using one quiet [of e1 s] alt two third deferred
    unfolding Let_def r1_def [symmetric] r2_def [symmetric] by simp
qed

text \<open>
  The theorem at the board that has just been asked to start (\<^verbatim>\<open>START_SEND\<close>, tick count
  1). With the link ready, the first and third ticks write \<^verbatim>\<open>START_CODE\<close> and the second
  writes nothing. With the link not ready on the first tick, the second tick writes.
\<close>

theorem C4_cadence_witness:
  "(let s = run [Tick pushed];
        r1 = communication_update silence s;
        r2 = communication_update silence (after r1)
    in sent r1 \<noteq> [] \<and> sendFrame_of silence s \<and> sent r2 = []
       \<and> sendFrame_of silence (after r2) = write_ready silence)
   \<and> (let s = run [Tick pushed];
            e1 = silence\<lparr>write_ready := False\<rparr>;
            r1 = communication_update e1 s
        in (unat (tickCount s) + 1) mod 2 = 0 \<and> \<not> write_ready e1 \<and> sent r1 = []
           \<and> sendFrame_of silence (after r1) = write_ready silence)"
proof -
  have a: "sent (communication_update silence (run [Tick pushed])) \<noteq> []"
    by code_simp
  have b: "(unat (tickCount (run [Tick pushed])) + 1) mod 2 = 0
           \<and> \<not> write_ready (silence\<lparr>write_ready := False\<rparr>)
           \<and> sent (communication_update (silence\<lparr>write_ready := False\<rparr>)
                 (run [Tick pushed])) = []"
    by code_simp
  show ?thesis
    using a b
      C4_cadence [of silence "run [Tick pushed]" silence silence]
      C4_cadence [of "silence\<lparr>write_ready := False\<rparr>" "run [Tick pushed]" silence silence]
    by (simp add: Let_def)
qed

subsection \<open>C5: submitting a ball handoff\<close>

text \<open>
  C5, as amended. \<^verbatim>\<open>communication_send_physics_info\<close> called in a state other than
  \<^verbatim>\<open>WAITING\<close> returns the session unchanged. Called in \<^verbatim>\<open>WAITING\<close> it moves to
  \<^verbatim>\<open>SENDING\<close>, leaves the sequence number even (an odd one is incremented), and stores
  as the pending payload the supplied direction and the low three bits of the supplied
  position and magnitude, which are the supplied values when these are at most 7; the
  byte slot and the tick count are untouched.
\<close>

theorem C5_send_physics_info:
  "(currentState s \<noteq> WAITING \<longrightarrow> communication_send_physics_info pR dR mC s = s)
   \<and> (currentState s = WAITING \<longrightarrow>
        (let t = communication_send_physics_info pR dR mC s
         in currentState t = SENDING
            \<and> unat (physicsSeqNumber t) mod 2 = 0
            \<and> physicsSeqNumber t =
                (if unat (physicsSeqNumber s) mod 2 = 1 then physicsSeqNumber s + 1
                 else physicsSeqNumber s)
            \<and> physicsInfo (physicsPacket t)
            \<and> posR (physicsPacket t) = pR AND 7
            \<and> dirR (physicsPacket t) = dR
            \<and> magC (physicsPacket t) = mC AND 7
            \<and> (pR \<le> 7 \<longrightarrow> posR (physicsPacket t) = pR)
            \<and> (mC \<le> 7 \<longrightarrow> magC (physicsPacket t) = mC)
            \<and> readData t = readData s \<and> tickCount t = tickCount s))"
proof (cases "currentState s = WAITING")
  case False
  then show ?thesis by (simp add: communication_send_physics_info_def)
next
  case True
  have keep: "x AND 7 = x" if "x \<le> 7" for x :: uint8_t
  proof -
    from that have "unat x < 8" by (simp add: word_le_nat_alt)
    from seq_cases [OF this] show ?thesis by auto
  qed
  show ?thesis
  proof (cases "unat (physicsSeqNumber s) mod 2 = 1")
    case odd: True
    have "unat (physicsSeqNumber s + 1) = (unat (physicsSeqNumber s) + 1) mod 256"
      by (simp add: unat_word_ariths)
    then have "unat (physicsSeqNumber s + 1) mod 2 = (unat (physicsSeqNumber s) + 1) mod 2"
      by (simp add: mod_mod_cancel)
    with odd have "unat (physicsSeqNumber s + 1) mod 2 = 0" by arith
    with True odd show ?thesis
      by (simp add: communication_send_physics_info_def Let_def packet_defs THREE_MASK_def keep)
  next
    case even: False
    then have "unat (physicsSeqNumber s) mod 2 = 0" by arith
    with True even show ?thesis
      by (simp add: communication_send_physics_info_def Let_def packet_defs THREE_MASK_def keep)
  qed
qed

text \<open>
  The theorem at two reachable sessions: after the start acknowledgement the board is
  in \<^verbatim>\<open>WAITING\<close> and the call stores the position 3; before it, in \<^verbatim>\<open>START_SEND\<close>, the
  call changes nothing.
\<close>

theorem C5_witness:
  "currentState (run [Tick pushed, Tick (heard START_ACK)]) = WAITING
   \<and> currentState (run [Tick pushed]) \<noteq> WAITING
   \<and> posR (physicsPacket (communication_send_physics_info 3 True 5
          (run [Tick pushed, Tick (heard START_ACK)]))) = 3
   \<and> communication_send_physics_info 3 True 5 (run [Tick pushed]) = run [Tick pushed]"
proof -
  have a: "currentState (run [Tick pushed, Tick (heard START_ACK)]) = WAITING"
    by code_simp
  have b: "currentState (run [Tick pushed]) \<noteq> WAITING"
    by code_simp
  have c: "(3 :: uint8_t) \<le> 7" by simp
  show ?thesis
    using a b c
      C5_send_physics_info [of "run [Tick pushed, Tick (heard START_ACK)]" 3 True 5]
      C5_send_physics_info [of "run [Tick pushed]" 3 True 5]
    by (simp add: Let_def)
qed

text \<open>
  C5 as stated fails for a position above 7: in \<^verbatim>\<open>WAITING\<close>, the call with the position
  9 stores \<^verbatim>\<open>9 & 7\<close>, which is 1.
\<close>

theorem C5_counterexample:
  "currentState (run [Tick pushed, Tick (heard START_ACK)]) = WAITING
   \<and> posR (physicsPacket (communication_send_physics_info 9 True 12
        (run [Tick pushed, Tick (heard START_ACK)]))) = 1
   \<and> posR (physicsPacket (communication_send_physics_info 9 True 12
        (run [Tick pushed, Tick (heard START_ACK)]))) \<noteq> 9"
  by code_simp

subsection \<open>C6: the start code is answered from the next state\<close>

text \<open>
  C6. In \<^verbatim>\<open>START_REC\<close>, when the byte in the slot is \<^verbatim>\<open>START_CODE\<close>, the tick moves to
  \<^verbatim>\<open>RECIEVING\<close>, returns the game start packet with \<^verbatim>\<open>haveBall\<close> false, writes nothing
  and leaves \<^verbatim>\<open>START_CODE\<close> in the slot. After any run of ticks on which no byte arrives
  and which are not send frames, the board is still in \<^verbatim>\<open>RECIEVING\<close> with \<^verbatim>\<open>START_CODE\<close> in
  the slot, and the first send frame (no byte arriving) writes \<^verbatim>\<open>START_ACK\<close> and clears
  the slot.
\<close>

theorem C6_start_then_ack:
  assumes "currentState s = START_REC"
    and "slot e s = START_CODE"
    and "idle_ticks (after (communication_update e s)) es"
    and "rx e' = None"
    and "sendFrame_of e' (ticks (after (communication_update e s)) es)"
  shows "currentState (after (communication_update e s)) = RECIEVING
         \<and> packet (communication_update e s) = game_start_packet False
         \<and> startGame (packet (communication_update e s))
         \<and> \<not> haveBall (packet (communication_update e s))
         \<and> readData (after (communication_update e s)) = START_CODE
         \<and> sent (communication_update e s) = []
         \<and> (let t = ticks (after (communication_update e s)) es
             in currentState t = RECIEVING
                \<and> readData t = START_CODE
                \<and> sent (communication_update e' t) = [START_ACK]
                \<and> readData (after (communication_update e' t)) = BLANK_BYTE
                \<and> currentState (after (communication_update e' t)) = RECIEVING
                \<and> packet (communication_update e' t) = null_packet)"
proof -
  let ?s1 = "after (communication_update e s)"
  let ?t = "ticks ?s1 es"
  have first: "communication_update e s =
      finish ((fst (prologue e s))\<lparr>currentState := RECIEVING\<rparr>) (game_start_packet False) [] True"
    using assms(2) by (simp add: tick_START_REC [OF assms(1)] update_START_REC_def prologue_slot)
  have s1: "currentState ?s1 = RECIEVING" "readData ?s1 = START_CODE"
    using assms(2) by (simp_all add: first finish_def prologue_slot)
  have keep: "currentState ?t = RECIEVING \<and> readData ?t = START_CODE"
    using idle_ticks_keep [of ?s1 es] s1 assms(3) by simp
  then have st: "currentState ?t = RECIEVING" and rd: "readData ?t = START_CODE"
    by simp_all
  have "readData (fst (prologue e' ?t)) = START_CODE"
    using assms(4) rd by (simp add: prologue_slot slot_None)
  then have last: "communication_update e' ?t =
      finish ((fst (prologue e' ?t))\<lparr>readData := BLANK_BYTE\<rparr>) null_packet [START_ACK] False"
    using assms(5) by (simp add: tick_RECIEVING [OF st] update_RECIEVING_def)
  have l: "sent (communication_update e' ?t) = [START_ACK]
        \<and> readData (after (communication_update e' ?t)) = BLANK_BYTE
        \<and> currentState (after (communication_update e' ?t)) = RECIEVING
        \<and> packet (communication_update e' ?t) = null_packet"
    using st by (simp add: last finish_def prologue_fst)
  have f: "packet (communication_update e s) = game_start_packet False
         \<and> startGame (packet (communication_update e s))
         \<and> \<not> haveBall (packet (communication_update e s))
         \<and> sent (communication_update e s) = []"
    by (simp add: first finish_def game_start_packet_def)
  from s1 keep l f show ?thesis unfolding Let_def by blast
qed

text \<open>
  The theorem at power on: the start code is heard, the link is not ready on the next
  tick, and the tick after that writes the acknowledgement.
\<close>

theorem C6_witness:
  "currentState boot = START_REC
   \<and> slot (heard START_CODE) boot = START_CODE
   \<and> idle_ticks (after (communication_update (heard START_CODE) boot))
        [silence\<lparr>write_ready := False\<rparr>]
   \<and> rx silence = None
   \<and> sendFrame_of silence
        (ticks (after (communication_update (heard START_CODE) boot))
           [silence\<lparr>write_ready := False\<rparr>])
   \<and> sent (communication_update silence
        (ticks (after (communication_update (heard START_CODE) boot))
           [silence\<lparr>write_ready := False\<rparr>])) = [START_ACK]"
proof -
  have a: "currentState boot = START_REC" by code_simp
  have b: "slot (heard START_CODE) boot = START_CODE" by code_simp
  have c: "idle_ticks (after (communication_update (heard START_CODE) boot))
        [silence\<lparr>write_ready := False\<rparr>]" by code_simp
  have d: "rx silence = None" by code_simp
  have e: "sendFrame_of silence
        (ticks (after (communication_update (heard START_CODE) boot))
           [silence\<lparr>write_ready := False\<rparr>])" by code_simp
  from C6_start_then_ack [OF a b c d e] a b c d e show ?thesis
    by (simp add: Let_def)
qed

subsection \<open>C7: a byte of the previous sequence number\<close>

text \<open>
  C7. In \<^verbatim>\<open>RECIEVING\<close> with the sequence number 2, on a send frame, when the byte in the
  slot has 1 in its top four bits: the tick writes exactly the byte \<^verbatim>\<open>0xD1\<close>, leaves the
  pending payload and the sequence number as they were, stays in \<^verbatim>\<open>RECIEVING\<close> and
  returns the packet with no flag.
\<close>

theorem C7_stale_sequence:
  assumes "currentState s = RECIEVING"
    and "physicsSeqNumber s = 2"
    and "decode_seq (slot e s) = 1"
    and "sendFrame_of e s"
  shows "sent (communication_update e s) = [PHYSICS_ACK OR 1]
         \<and> PHYSICS_ACK OR 1 = (0xD1 :: uint8_t)
         \<and> physicsPacket (after (communication_update e s)) = physicsPacket s
         \<and> physicsSeqNumber (after (communication_update e s)) = 2
         \<and> currentState (after (communication_update e s)) = RECIEVING
         \<and> packet (communication_update e s) = null_packet"
proof -
  let ?t = "fst (prologue e s)"
  have n: "physicsSeqNumber ?t = 2"
    using assms(2) by (simp add: prologue_fst SEQ_NUMBER_LIMIT_def)
  have l: "last_seq 2 = 1" by (simp add: last_seq_def SEQ_NUMBER_LIMIT_def)
  have d: "decode_seq (readData ?t) = last_seq (physicsSeqNumber ?t)"
    using assms(3) by (simp add: n l) (simp add: prologue_fst)
  have u: "unat (physicsSeqNumber ?t) < 8" by (simp add: n)
  have "communication_update e s =
        finish (?t\<lparr>readData := BLANK_BYTE\<rparr>) null_packet [PHYSICS_ACK OR 1] False"
    using assms(4) by (simp add: tick_RECIEVING [OF assms(1)] recv_previous [OF d u] n l)
  then show ?thesis
    using assms(1,2) n by (simp add: finish_def prologue_fst PHYSICS_ACK_def)
qed

text \<open>The theorem in the game \<open>ball_sent\<close>, when the stale velocity half \<^verbatim>\<open>0x1D\<close> is heard.\<close>

theorem C7_witness:
  "currentState (run ball_sent) = RECIEVING
   \<and> physicsSeqNumber (run ball_sent) = 2
   \<and> decode_seq (slot (heard 0x1D) (run ball_sent)) = 1
   \<and> sendFrame_of (heard 0x1D) (run ball_sent)
   \<and> sent (communication_update (heard 0x1D) (run ball_sent)) = [0xD1]
   \<and> physicsSeqNumber (after (communication_update (heard 0x1D) (run ball_sent))) = 2"
proof -
  have a: "currentState (run ball_sent) = RECIEVING" by code_simp
  have b: "physicsSeqNumber (run ball_sent) = 2" by code_simp
  have c: "decode_seq (slot (heard 0x1D) (run ball_sent)) = 1" by code_simp
  have d: "sendFrame_of (heard 0x1D) (run ball_sent)" by code_simp
  from C7_stale_sequence [OF a b c d] a b c d show ?thesis by simp
qed

subsection \<open>C8: one event per tick\<close>

text \<open>
  C8. In every reachable session the packet a tick returns has at most one of the flags
  \<^verbatim>\<open>startGame\<close>, \<^verbatim>\<open>endRound\<close>, \<^verbatim>\<open>gameOver\<close> and \<^verbatim>\<open>physicsInfo\<close> set. The packet with no
  flag is the default: a tick returns another packet only on the five transitions that
  report an event (start received, start acknowledged, game over, round ended, handoff
  completed).
\<close>

theorem C8_one_event:
  "flag_count (packet (communication_update env (run evs))) \<le> 1
   \<and> flag_count null_packet = 0
   \<and> (packet (communication_update env s) \<noteq> null_packet \<longrightarrow>
        (currentState s, currentState (after (communication_update env s)))
          \<in> {(START_REC, RECIEVING), (START_SEND, WAITING), (RECIEVING, GAME_OVER),
             (RECIEVING, START_REC), (RECIEVING, WAITING)})"
proof -
  have "payload_only (physicsPacket (fst (prologue env (run evs))))"
    using run_payload_only [of evs] by (simp add: prologue_fst)
  then have a: "flag_count (packet (communication_update env (run evs))) \<le> 1"
    unfolding update_eq by (rule dispatch_flag_count)
  have b: "flag_count null_packet = 0"
    by (simp add: flag_count_def null_packet_def)
  have c: "packet (communication_update env s) \<noteq> null_packet \<Longrightarrow>
        (currentState s, currentState (after (communication_update env s)))
          \<in> {(START_REC, RECIEVING), (START_SEND, WAITING), (RECIEVING, GAME_OVER),
             (RECIEVING, START_REC), (RECIEVING, WAITING)}"
    using dispatch_default [of "sendFrame_of env s" "nav_push env" "fst (prologue env s)"]
    by (simp add: update_eq prologue_fst)
  from a b c show ?thesis by blast
qed

text \<open>The theorem at power on, when the start code is heard: the packet is not the default.\<close>

theorem C8_witness:
  "packet (communication_update (heard START_CODE) boot) \<noteq> null_packet
   \<and> currentState boot = START_REC
   \<and> currentState (after (communication_update (heard START_CODE) boot)) = RECIEVING"
proof -
  have a: "packet (communication_update (heard START_CODE) boot) \<noteq> null_packet"
    by code_simp
  have b: "currentState boot = START_REC" by code_simp
  show ?thesis
    using a b C8_one_event [of "heard START_CODE" "[]" boot] by simp
qed

subsection \<open>C9: the position is stored unmasked\<close>

text \<open>
  C9. In \<^verbatim>\<open>RECIEVING\<close>, when the sequence number is even and the byte in the slot
  carries it, the position field of the pending packet becomes the whole low nibble of
  the byte, which is at least 8 when bit 3 of the byte is set. When the velocity half
  then arrives, the packet returned carries that position. The sending side, in
  contrast, keeps only the low three bits of the position and of the magnitude, so what
  it stores is at most 7.
\<close>

theorem C9_unmasked_position:
  assumes "currentState s = RECIEVING"
    and "unat (reduced (physicsSeqNumber s)) mod 2 = 0"
    and "decode_seq (slot e s) = reduced (physicsSeqNumber s)"
    and "rx e2 = Some b2"
    and "decode_seq b2 = reduced (physicsSeqNumber s) + 1"
  shows "let r1 = communication_update e s;
             r2 = communication_update e2 (after r1)
         in posR (physicsPacket (after r1)) = slot e s AND SUFFIX_MASK
            \<and> (slot e s AND ONE_MASK \<noteq> 0 \<longrightarrow> 8 \<le> posR (physicsPacket (after r1)))
            \<and> currentState (after r1) = RECIEVING
            \<and> posR (packet r2) = slot e s AND SUFFIX_MASK
            \<and> physicsInfo (packet r2) = physicsInfo (physicsPacket s)
            \<and> currentState (after r2) = WAITING
            \<and> posR (communication_physics_packet pR dR mC) \<le> 7
            \<and> magC (communication_physics_packet pR dR mC) \<le> 7
            \<and> posR (communication_physics_packet pR dR mC) = pR AND THREE_MASK
            \<and> magC (communication_physics_packet pR dR mC) = mC AND THREE_MASK"
proof -
  define r1 where "r1 = communication_update e s"
  define r2 where "r2 = communication_update e2 (after r1)"
  note first = current_tick(1,4) [OF assms(1,3), folded r1_def]
  from first(2) [OF assms(2)]
  have p1: "physicsPacket (after r1) = (physicsPacket s)\<lparr>posR := decode_data (slot e s)\<rparr>"
    and st: "currentState (after r1) = RECIEVING"
    by simp_all
  note odd = even_succ_odd [OF assms(2)]
  have d2: "decode_seq (slot e2 (after r1)) = reduced (physicsSeqNumber (after r1))"
    using assms(5) odd by (simp only: slot_Some [OF assms(4)] first(1))
  have o: "unat (reduced (physicsSeqNumber (after r1))) mod 2 \<noteq> 0"
    using odd by (simp only: first(1)) simp
  from current_tick(5) [OF st d2 o, folded r2_def]
  have second: "posR (packet r2) = slot e s AND SUFFIX_MASK
      \<and> physicsInfo (packet r2) = physicsInfo (physicsPacket s)
      \<and> currentState (after r2) = WAITING"
    by (simp add: p1 decode_data_def)
  have a: "posR (physicsPacket (after r1)) = slot e s AND SUFFIX_MASK"
    by (simp add: p1 decode_data_def)
  have b: "slot e s AND ONE_MASK \<noteq> 0 \<Longrightarrow> 8 \<le> posR (physicsPacket (after r1))"
    using nibble_bit3 [of "slot e s"] by (simp add: p1)
  have c: "posR (communication_physics_packet pR dR mC) = pR AND THREE_MASK
      \<and> magC (communication_physics_packet pR dR mC) = mC AND THREE_MASK"
    by (simp add: communication_physics_packet_def null_packet_def)
  show ?thesis
    unfolding Let_def r1_def [symmetric] r2_def [symmetric]
    using a b st second sender_masks [of pR dR mC] c by simp
qed

text \<open>
  The theorem after the start code has been heard: the position half \<^verbatim>\<open>0x0F\<close> and then
  the velocity half \<^verbatim>\<open>0x1D\<close> make the tick return a handoff with the position 15.
\<close>

theorem C9_witness:
  "let s = run [Tick (heard START_CODE)];
       r1 = communication_update (heard 0x0F) s;
       r2 = communication_update (heard 0x1D) (after r1)
   in currentState s = RECIEVING
      \<and> unat (reduced (physicsSeqNumber s)) mod 2 = 0
      \<and> decode_seq (slot (heard 0x0F) s) = reduced (physicsSeqNumber s)
      \<and> rx (heard 0x1D) = Some 0x1D
      \<and> decode_seq 0x1D = reduced (physicsSeqNumber s) + 1
      \<and> slot (heard 0x0F) s AND ONE_MASK \<noteq> 0
      \<and> slot (heard 0x0F) s AND SUFFIX_MASK = 15
      \<and> physicsInfo (physicsPacket s)
      \<and> physicsInfo (packet r2)
      \<and> posR (packet r2) = 15"
proof -
  let ?s = "run [Tick (heard START_CODE)]"
  have a1: "currentState ?s = RECIEVING" by code_simp
  have a2: "unat (reduced (physicsSeqNumber ?s)) mod 2 = 0" by code_simp
  have a3: "decode_seq (slot (heard 0x0F) ?s) = reduced (physicsSeqNumber ?s)" by code_simp
  have a4: "rx (heard 0x1D) = Some 0x1D" by code_simp
  have a5: "decode_seq 0x1D = reduced (physicsSeqNumber ?s) + 1" by code_simp
  have a6: "slot (heard 0x0F) ?s AND ONE_MASK \<noteq> 0" by code_simp
  have a7: "slot (heard 0x0F) ?s AND SUFFIX_MASK = 15" by code_simp
  have a8: "physicsInfo (physicsPacket ?s)" by code_simp
  from C9_unmasked_position [OF a1 a2 a3 a4 a5, of 0 False 0] a1 a2 a3 a4 a5 a6 a7 a8
  show ?thesis
    unfolding Let_def by simp
qed

subsection \<open>C10: a data byte applied on a tick that is not a send frame\<close>

text \<open>
  C10. In \<^verbatim>\<open>RECIEVING\<close>, when the byte in the slot carries the current sequence number
  and the tick is not a send frame: nothing is written, the byte stays in the slot, the
  sequence number advances by one and the payload is stored (the position for an even
  number; the direction and the magnitude for an odd one, with the move to \<^verbatim>\<open>WAITING\<close>
  and the handoff packet returned). After any run of ticks on which no byte arrives and
  which are not send frames, the byte is still in the slot and now matches the previous
  sequence number, and the first send frame (no byte arriving) writes the acknowledgement
  of the applied sequence number, clears the slot and changes neither the payload nor
  the state.
\<close>

theorem C10_deferred_ack:
  assumes "currentState s = RECIEVING"
    and "decode_seq (slot e s) = reduced (physicsSeqNumber s)"
    and "\<not> sendFrame_of e s"
    and "idle_ticks (after (communication_update e s)) es"
    and "rx e' = None"
    and "sendFrame_of e' (ticks (after (communication_update e s)) es)"
  shows "let k = reduced (physicsSeqNumber s);
             b = slot e s;
             r = communication_update e s;
             t = ticks (after r) es;
             r' = communication_update e' t
         in sent r = []
            \<and> readData (after r) = b
            \<and> physicsSeqNumber (after r) = k + 1
            \<and> (unat k mod 2 = 0 \<longrightarrow>
                 physicsPacket (after r) = (physicsPacket s)\<lparr>posR := decode_data b\<rparr>
                 \<and> currentState (after r) = RECIEVING \<and> packet r = null_packet)
            \<and> (unat k mod 2 \<noteq> 0 \<longrightarrow>
                 physicsPacket (after r)
                   = (physicsPacket s)\<lparr>dirR := 0 < decode_data b AND ONE_MASK,
                                        magC := decode_data b AND THREE_MASK\<rparr>
                 \<and> currentState (after r) = WAITING \<and> packet r = physicsPacket (after r))
            \<and> readData t = b
            \<and> decode_seq b = last_seq (reduced (physicsSeqNumber t))
            \<and> sent r' = [PHYSICS_ACK OR k]
            \<and> readData (after r') = BLANK_BYTE
            \<and> physicsPacket (after r') = physicsPacket (after r)
            \<and> currentState (after r') = currentState (after r)
            \<and> reduced (physicsSeqNumber (after r')) = reduced (k + 1)
            \<and> packet r' = null_packet"
proof -
  define k where "k = reduced (physicsSeqNumber s)"
  define b where "b = slot e s"
  define r where "r = communication_update e s"
  define t where "t = ticks (after r) es"
  define r' where "r' = communication_update e' t"
  note cur = current_tick [OF assms(1,2), folded k_def b_def r_def]
  have kl: "unat k < 8" by (simp add: k_def reduced_lt)
  have db: "decode_seq b = k" using assms(2) by (simp add: k_def b_def)
  have rd: "readData (after r) = b" and sn: "sent r = []"
    using cur(2,3) assms(3) by simp_all
  have st: "currentState (after r) = RECIEVING \<or> currentState (after r) = WAITING"
    using current_tick_state [OF assms(1,2)] by (simp add: r_def)
  have prev: "decode_seq (readData (after r)) = last_seq (reduced (physicsSeqNumber (after r)))"
    by (simp add: rd db cur(1) last_seq_succ [OF kl])
  have keep: "currentState t = currentState (after r) \<and> readData t = readData (after r)
      \<and> physicsPacket t = physicsPacket (after r)
      \<and> reduced (physicsSeqNumber t) = reduced (physicsSeqNumber (after r))"
  proof -
    have p: "readData (after r) = START_CODE
        \<or> decode_seq (readData (after r)) = last_seq (reduced (physicsSeqNumber (after r)))"
      using prev by simp
    have i: "idle_ticks (after r) es" using assms(4) by (simp add: r_def)
    show ?thesis unfolding t_def by (rule idle_ticks_keep [OF st p i])
  qed
  from keep have kt: "currentState t = currentState (after r)" "readData t = b"
      "physicsPacket t = physicsPacket (after r)"
      "reduced (physicsSeqNumber t) = reduced (k + 1)"
    by (simp_all add: rd cur(1))
  have st': "currentState t = RECIEVING \<or> currentState t = WAITING"
    using st by (simp add: kt(1))
  have l: "last_seq (reduced (physicsSeqNumber t)) = k"
    by (simp only: kt(4) last_seq_succ [OF kl])
  have prev': "decode_seq (slot e' t) = last_seq (reduced (physicsSeqNumber t))"
    by (simp only: slot_None [OF assms(5)] kt(2) db l)
  have sf: "sendFrame_of e' t" using assms(6) by (simp add: t_def r_def)
  have fin: "r' = finish ((fst (prologue e' t))\<lparr>readData := BLANK_BYTE\<rparr>) null_packet
                   [PHYSICS_ACK OR k] False"
    unfolding r'_def using sf by (simp only: previous_tick [OF st' prev'] l if_True)
  have last: "sent r' = [PHYSICS_ACK OR k] \<and> readData (after r') = BLANK_BYTE
      \<and> physicsPacket (after r') = physicsPacket (after r)
      \<and> currentState (after r') = currentState (after r)
      \<and> reduced (physicsSeqNumber (after r')) = reduced (k + 1)
      \<and> packet r' = null_packet"
    by (simp add: fin finish_def prologue_fst reduced_reduced kt)
  have mid: "readData t = b \<and> decode_seq b = last_seq (reduced (physicsSeqNumber t))"
    by (simp only: kt(2) db l)
  show ?thesis
    unfolding Let_def k_def [symmetric] b_def [symmetric] r_def [symmetric]
      t_def [symmetric] r'_def [symmetric]
    using sn rd cur(1,4,5) mid last by blast
qed

text \<open>
  The theorem after the start code has been heard. Even sequence number: the position
  half \<^verbatim>\<open>0x05\<close> arrives while the link is not ready, the link is still not ready on the
  next tick, and the tick after that writes the acknowledgement. Odd sequence number: the
  velocity half \<^verbatim>\<open>0x1D\<close> arrives while the link is not ready, and the next tick writes
  the acknowledgement from \<^verbatim>\<open>WAITING\<close>.
\<close>

theorem C10_witness:
  "(let s = run [Tick (heard START_CODE)];
        e = (heard 0x05)\<lparr>write_ready := False\<rparr>;
        es = [silence\<lparr>write_ready := False\<rparr>];
        t = ticks (after (communication_update e s)) es
    in currentState s = RECIEVING
       \<and> decode_seq (slot e s) = reduced (physicsSeqNumber s)
       \<and> \<not> sendFrame_of e s
       \<and> idle_ticks (after (communication_update e s)) es
       \<and> rx silence = None
       \<and> sendFrame_of silence t
       \<and> unat (reduced (physicsSeqNumber s)) mod 2 = 0
       \<and> sent (communication_update silence t) = [PHYSICS_ACK OR reduced (physicsSeqNumber s)])
   \<and> (let s = run [Tick (heard START_CODE), Tick ((heard 0x05)\<lparr>write_ready := False\<rparr>)];
            e = (heard 0x1D)\<lparr>write_ready := False\<rparr>;
            t = ticks (after (communication_update e s)) []
        in currentState s = RECIEVING
           \<and> decode_seq (slot e s) = reduced (physicsSeqNumber s)
           \<and> \<not> sendFrame_of e s
           \<and> idle_ticks (after (communication_update e s)) []
           \<and> sendFrame_of silence t
           \<and> unat (reduced (physicsSeqNumber s)) mod 2 \<noteq> 0
           \<and> currentState (after (communication_update e s)) = WAITING
           \<and> sent (communication_update silence t)
               = [PHYSICS_ACK OR reduced (physicsSeqNumber s)])"
proof -
  let ?s = "run [Tick (heard START_CODE)]"
  let ?e = "(heard 0x05)\<lparr>write_ready := False\<rparr>"
  let ?es = "[silence\<lparr>write_ready := False\<rparr>]"
  have a1: "currentState ?s = RECIEVING" by code_simp
  have a2: "decode_seq (slot ?e ?s) = reduced (physicsSeqNumber ?s)" by code_simp
  have a3: "\<not> sendFrame_of ?e ?s" by code_simp
  have a4: "idle_ticks (after (communication_update ?e ?s)) ?es" by code_simp
  have a5: "rx silence = None" by code_simp
  have a6: "sendFrame_of silence (ticks (after (communication_update ?e ?s)) ?es)"
    by code_simp
  have a7: "unat (reduced (physicsSeqNumber ?s)) mod 2 = 0" by code_simp
  let ?s' = "run [Tick (heard START_CODE), Tick ((heard 0x05)\<lparr>write_ready := False\<rparr>)]"
  let ?e' = "(heard 0x1D)\<lparr>write_ready := False\<rparr>"
  have b1: "currentState ?s' = RECIEVING" by code_simp
  have b2: "decode_seq (slot ?e' ?s') = reduced (physicsSeqNumber ?s')" by code_simp
  have b3: "\<not> sendFrame_of ?e' ?s'" by code_simp
  have b4: "idle_ticks (after (communication_update ?e' ?s')) []" by simp
  have b6: "sendFrame_of silence (ticks (after (communication_update ?e' ?s')) [])"
    by code_simp
  have b7: "unat (reduced (physicsSeqNumber ?s')) mod 2 \<noteq> 0" by code_simp
  note A = C10_deferred_ack [OF a1 a2 a3 a4 a5 a6]
  note B = C10_deferred_ack [OF b1 b2 b3 b4 a5 b6]
  from A a1 a2 a3 a4 a5 a6 a7
  have first: "let s = ?s; e = ?e; es = ?es; t = ticks (after (communication_update e s)) es
    in currentState s = RECIEVING
       \<and> decode_seq (slot e s) = reduced (physicsSeqNumber s)
       \<and> \<not> sendFrame_of e s
       \<and> idle_ticks (after (communication_update e s)) es
       \<and> rx silence = None
       \<and> sendFrame_of silence t
       \<and> unat (reduced (physicsSeqNumber s)) mod 2 = 0
       \<and> sent (communication_update silence t) = [PHYSICS_ACK OR reduced (physicsSeqNumber s)]"
    unfolding Let_def by blast
  from B b1 b2 b3 b4 b6 b7
  have second: "let s = ?s'; e = ?e'; t = ticks (after (communication_update e s)) []
        in currentState s = RECIEVING
           \<and> decode_seq (slot e s) = reduced (physicsSeqNumber s)
           \<and> \<not> sendFrame_of e s
           \<and> idle_ticks (after (communication_update e s)) []
           \<and> sendFrame_of silence t
           \<and> unat (reduced (physicsSeqNumber s)) mod 2 \<noteq> 0
           \<and> currentState (after (communication_update e s)) = WAITING
           \<and> sent (communication_update silence t)
               = [PHYSICS_ACK OR reduced (physicsSeqNumber s)]"
    unfolding Let_def by blast
  from first second show ?thesis by (rule conjI)
qed

end
